theory Spec2Isabelle
  imports Complex_Main "HOL-Library.Word" "HOL-Library.Sublist"
begin

section \<open>JavaScript strings\<close>

text \<open>
  A JavaScript string is a sequence of 16-bit code units. Literals of the source are
  written with \<open>lit\<close>, which maps every character of an ASCII literal to its code
  unit; \<open>\<newline>\<close> inside a literal is the line feed the source writes as a
  backslash followed by n.
\<close>

type_synonym code_unit = "16 word"

type_synonym jsstring = "code_unit list"

definition lit :: "string \<Rightarrow> jsstring" where
  "lit s = map of_char s"

text \<open>
  The class \<open>\s\<close> of a regular expression, which is also the white space that
  \<open>parseInt\<close> skips: the WhiteSpace and LineTerminator code points of ECMAScript
  (TAB, LF, VT, FF, CR, SP, NBSP, U+1680, U+2000 to U+200A, U+2028, U+2029, U+202F,
  U+205F, U+3000, U+FEFF). The class \<open>\d\<close> is the ten ASCII digits.
\<close>

definition isWhiteSpace :: "code_unit \<Rightarrow> bool" where
  "isWhiteSpace c =
     (c = 0x09 \<or> c = 0x0A \<or> c = 0x0B \<or> c = 0x0C \<or> c = 0x0D \<or> c = 0x20 \<or> c = 0xA0
      \<or> c = 0x1680 \<or> (0x2000 \<le> c \<and> c \<le> 0x200A) \<or> c = 0x2028 \<or> c = 0x2029
      \<or> c = 0x202F \<or> c = 0x205F \<or> c = 0x3000 \<or> c = 0xFEFF)"

definition isDigit :: "code_unit \<Rightarrow> bool" where
  "isDigit c = (0x30 \<le> c \<and> c \<le> 0x39)"

text \<open>\<open>Array.prototype.join\<close> on an array of strings.\<close>

fun join :: "jsstring \<Rightarrow> jsstring list \<Rightarrow> jsstring" where
  "join sep [] = []"
| "join sep [x] = x"
| "join sep (x # y # ys) = x @ sep @ join sep (y # ys)"

section \<open>The regular expression of the pay-per-view filter\<close>

text \<open>
  The filter of \<open>createICS\<close> is \<open>/UFC\s+\d+/.test(e.name)\<close>. The expression is a
  sequence of pieces, each an atom taken once or one or more times (\<open>+\<close>, greedy,
  with backtracking). It carries no flag, so \<open>test\<close> always starts at index 0,
  and tries every start index from left to right.
\<close>

datatype atom = Chr code_unit | WhiteSpaceClass | DigitClass

datatype piece = Once atom | Plus atom

fun atom_matches :: "atom \<Rightarrow> code_unit \<Rightarrow> bool" where
  "atom_matches (Chr a) c = (c = a)"
| "atom_matches WhiteSpaceClass c = isWhiteSpace c"
| "atom_matches DigitClass c = isDigit c"

fun match_here :: "piece list \<Rightarrow> jsstring \<Rightarrow> bool" where
  "match_here [] s = True"
| "match_here (p # ps) [] = False"
| "match_here (Once a # ps) (c # cs) = (atom_matches a c \<and> match_here ps cs)"
| "match_here (Plus a # ps) (c # cs) =
     (atom_matches a c \<and> (match_here (Plus a # ps) cs \<or> match_here ps cs))"

fun test :: "piece list \<Rightarrow> jsstring \<Rightarrow> bool" where
  "test r [] = match_here r []"
| "test r (c # cs) = (match_here r (c # cs) \<or> test r cs)"

definition ppv_regex :: "piece list" where
  "ppv_regex = [Once (Chr 0x55), Once (Chr 0x46), Once (Chr 0x43),
                Plus WhiteSpaceClass, Plus DigitClass]"

text \<open>
  The pattern in the words of the specification, to be compared with the expression of
  the source: the token \<open>UFC\<close>, one or more white space characters, then one or more
  decimal digits, anywhere in the string.
\<close>

definition name_matches_spec :: "jsstring \<Rightarrow> bool" where
  "name_matches_spec n =
     (\<exists>pre ws ds post. n = pre @ lit ''UFC'' @ ws @ ds @ post
        \<and> ws \<noteq> [] \<and> list_all isWhiteSpace ws \<and> ds \<noteq> [] \<and> list_all isDigit ds)"

section \<open>parseInt and Date\<close>

text \<open>
  \<open>parseInt(s)\<close> with no radix: leading white space is skipped, then an optional
  sign, then \<open>0x\<close> or \<open>0X\<close> selects radix 16 (radix 10 otherwise), then the longest
  run of digits of that radix is read. No digit at all gives NaN, which is \<open>None\<close>
  here; otherwise the result is the signed integer the digits denote. For an integer
  beyond \<open>2^53\<close> JavaScript returns the nearest double and the model the integer
  itself; the source passes the result to \<open>new Date\<close> only, which is invalid for
  every such value on both sides (see \<open>newDate\<close>).
\<close>

definition digitValue :: "nat \<Rightarrow> code_unit \<Rightarrow> nat option" where
  "digitValue R c =
     (if 0x30 \<le> c \<and> c \<le> 0x39 then Some (unat c - 0x30)
      else if R = 16 \<and> 0x61 \<le> c \<and> c \<le> 0x66 then Some (unat c - 0x61 + 10)
      else if R = 16 \<and> 0x41 \<le> c \<and> c \<le> 0x46 then Some (unat c - 0x41 + 10)
      else None)"

fun readDigits :: "nat \<Rightarrow> nat option \<Rightarrow> jsstring \<Rightarrow> nat option" where
  "readDigits R acc [] = acc"
| "readDigits R acc (c # cs) =
     (case digitValue R c of
        None \<Rightarrow> acc
      | Some v \<Rightarrow> readDigits R (Some ((case acc of None \<Rightarrow> 0 | Some a \<Rightarrow> a) * R + v)) cs)"

definition parseInt :: "jsstring \<Rightarrow> int option" where
  "parseInt inputString =
     (let S = dropWhile isWhiteSpace inputString;
          sign = (case S of c # cs \<Rightarrow> if c = 0x2D then - 1 else 1 | [] \<Rightarrow> (1::int));
          S = (case S of c # cs \<Rightarrow> if c = 0x2D \<or> c = 0x2B then cs else S | [] \<Rightarrow> S);
          hex = (case S of a # b # cs \<Rightarrow> a = 0x30 \<and> (b = 0x78 \<or> b = 0x58) | _ \<Rightarrow> False);
          R = (if hex then 16 else 10);
          S = (if hex then drop 2 S else S)
      in map_option (\<lambda>n. sign * int n) (readDigits R None S))"

text \<open>
  \<open>new Date(parseInt(s) * 1000)\<close>: the time value of the Date, in milliseconds, or
  \<open>None\<close> for an invalid Date (its time value is NaN). A Date is invalid when the
  number is NaN or lies outside the range of \<open>8.64e15\<close> milliseconds around the
  epoch. The source computes with doubles. An integer of magnitude at most
  \<open>8.64e12\<close> and its product with 1000 are below \<open>2^53\<close>, so both are exact; a
  larger integer, exact or rounded, has a product beyond the range, so the Date is
  invalid whatever the rounding. The integer model therefore gives the time value the
  source computes.
\<close>

definition newDate :: "jsstring \<Rightarrow> int option" where
  "newDate s =
     (case parseInt s of
        None \<Rightarrow> None
      | Some n \<Rightarrow> if \<bar>n * 1000\<bar> \<le> 8640000000000000 then Some (n * 1000) else None)"

text \<open>
  \<open>(+date - +prelimsTime) / 3600000\<close>: NaN when either Date is invalid. The
  difference of two time values is a multiple of 1000 of magnitude below \<open>2^54\<close>,
  hence exact; the quotient is the double nearest to the rational below, and it is
  positive exactly when the rational is.
\<close>

definition hoursBetween :: "int option \<Rightarrow> int option \<Rightarrow> rat option" where
  "hoursBetween d p =
     (case (d, p) of
        (Some a, Some b) \<Rightarrow> Some (of_int (a - b) / 3600000)
      | _ \<Rightarrow> None)"

definition positive :: "rat option \<Rightarrow> bool" where
  "positive h = (case h of None \<Rightarrow> False | Some q \<Rightarrow> q > 0)"

text \<open>A value of type \<open>string | undefined\<close> is truthy when it is a non-empty string.\<close>

definition truthy :: "jsstring option \<Rightarrow> bool" where
  "truthy v = (case v of None \<Rightarrow> False | Some s \<Rightarrow> s \<noteq> [])"

section \<open>The environment of the process\<close>

text \<open>
  What the source takes from the JavaScript runtime rather than from its input: the
  local time zone of the process (the five getters of a valid Date, applied to its
  time value), the text of a number inside a template literal (applied to the
  quotient whose nearest double the source prints), the working directory and
  \<open>path.join\<close>.
\<close>

record js_env =
  getFullYear :: "int \<Rightarrow> int"
  getMonth :: "int \<Rightarrow> int"
  getDate :: "int \<Rightarrow> int"
  getHours :: "int \<Rightarrow> int"
  getMinutes :: "int \<Rightarrow> int"
  numberToString :: "rat \<Rightarrow> jsstring"
  cwd :: jsstring
  pathJoin :: "jsstring \<Rightarrow> jsstring \<Rightarrow> jsstring"

section \<open>Events and calendar entries\<close>

record URL =
  href :: jsstring

record UFCEvent =
  name :: jsstring
  date :: jsstring
  location :: jsstring
  url :: URL
  fightCard :: "jsstring list"
  mainCard :: "jsstring list"
  prelims :: "jsstring list"
  earlyPrelims :: "jsstring list"
  prelimsTime :: "jsstring option"
  earlyPrelimsTime :: "jsstring option"

record DurationObject =
  hours :: int

record Trigger =
  minutes :: int
  before :: bool

record Alarm =
  action :: jsstring
  description :: jsstring
  trigger :: Trigger

text \<open>A number of the start array is \<open>None\<close> when it is NaN (the Date is invalid).\<close>

record EventAttributes =
  start :: "int option list"
  duration :: DurationObject
  title :: jsstring
  description :: jsstring
  location :: jsstring
  uid :: jsstring
  calName :: jsstring
  alarms :: "Alarm list"

text \<open>The predicate of the filter in \<open>createICS\<close>, the classifier of the
  pay-per-view subset.\<close>

definition isPayPerView :: "UFCEvent \<Rightarrow> bool" where
  "isPayPerView e = test ppv_regex (name e)"

text \<open>
  \<open>formatEventForCalendar\<close>. The second argument is the text that
  \<open>new Date().toLocaleString(...)\<close> returns when the call reads the clock.
\<close>

definition formatEventForCalendar ::
  "js_env \<Rightarrow> jsstring \<Rightarrow> UFCEvent \<Rightarrow> jsstring \<Rightarrow> EventAttributes" where
  "formatEventForCalendar env timestamp event cal =
     (let d = newDate (date event);
          start = [map_option (getFullYear env) d,
                   map_option (\<lambda>t. getMonth env t + 1) d,
                   map_option (getDate env) d,
                   map_option (getHours env) d,
                   map_option (getMinutes env) d];
          duration = \<lparr>hours = 3\<rparr>;
          title = name event;
          text = [];
          text = (if fightCard event \<noteq> []
                  then text @ join (lit ''\<newline>'') (fightCard event) @ lit ''\<newline>''
                  else text);
          text = (if mainCard event \<noteq> []
                  then text @ lit ''Main Card\<newline>--------------------\<newline>''
                         @ join (lit ''\<newline>'') (mainCard event) @ lit ''\<newline>''
                  else text);
          text = (if prelims event \<noteq> []
                  then (let text = text @ lit ''\<newline>Prelims'';
                            text = (if truthy (prelimsTime event)
                                    then (let p = newDate (case prelimsTime event of
                                                             Some s \<Rightarrow> s | None \<Rightarrow> []);
                                              hoursAgo = hoursBetween d p
                                          in if positive hoursAgo
                                             then text @ lit '' ('' @ numberToString env
                                                      (case hoursAgo of Some q \<Rightarrow> q | None \<Rightarrow> 0)
                                                    @ lit '' hrs before Main)''
                                             else text)
                                    else text)
                        in text @ lit ''\<newline>--------------------\<newline>''
                             @ join (lit ''\<newline>'') (prelims event) @ lit ''\<newline>'')
                  else text);
          text = (if earlyPrelims event \<noteq> []
                  then (let text = text @ lit ''\<newline>Early Prelims'';
                            text = (if truthy (earlyPrelimsTime event)
                                    then (let p = newDate (case earlyPrelimsTime event of
                                                             Some s \<Rightarrow> s | None \<Rightarrow> []);
                                              hoursAgo = hoursBetween d p
                                          in if positive hoursAgo
                                             then text @ lit '' ('' @ numberToString env
                                                      (case hoursAgo of Some q \<Rightarrow> q | None \<Rightarrow> 0)
                                                    @ lit '' hrs before Main)''
                                             else text)
                                    else text)
                        in text @ lit ''\<newline>--------------------\<newline>''
                             @ join (lit ''\<newline>'') (earlyPrelims event) @ lit ''\<newline>'')
                  else text);
          text = text @ lit ''\<newline>'' @ href (url event) @ lit ''\<newline>'';
          text = text @ lit ''\<newline>Accurate as of '' @ timestamp
      in \<lparr>start = start,
          duration = duration,
          title = title,
          description = text,
          location = UFCEvent.location event,
          uid = href (url event),
          calName = cal,
          alarms = [\<lparr>action = lit ''display'',
                     description = title @ lit '' starting soon!'',
                     trigger = \<lparr>minutes = 30, before = True\<rparr>\<rparr>]\<rparr>)"

section \<open>The run\<close>

text \<open>
  \<open>createICS\<close> with its effects made explicit. The process owns the files of the
  working directory and its exit code (undefined until the run sets it); the trace
  records, in order, every call of the serializer \<open>createEvents\<close> and every
  \<open>fs.writeFileSync\<close>. Console output is not part of the model. The inputs of a run
  are the outcome of \<open>await getAllDetailedEvents()\<close> (a rejection, or a value
  that may be absent), the serializer, which returns an error or the text of the
  calendar, and the clock: \<open>clock k\<close> is the formatted time that the \<open>k\<close>-th call
  of \<open>formatEventForCalendar\<close> of the run reads.
\<close>

datatype error = NoEventsRetrieved | AcquisitionError jsstring | SerializerError jsstring

datatype effect = CreateEvents "EventAttributes list" | WriteFileSync jsstring jsstring

record process =
  files :: "jsstring \<rightharpoonup> jsstring"
  exitCode :: "int option"
  trace :: "effect list"

definition callCreateEvents :: "EventAttributes list \<Rightarrow> process \<Rightarrow> process" where
  "callCreateEvents entries proc = proc\<lparr>trace := trace proc @ [CreateEvents entries]\<rparr>"

definition writeFileSync :: "jsstring \<Rightarrow> jsstring \<Rightarrow> process \<Rightarrow> process" where
  "writeFileSync path content proc =
     proc\<lparr>files := (files proc)(path \<mapsto> content),
          trace := trace proc @ [WriteFileSync path content]\<rparr>"

text \<open>\<open>events.map((e) => formatEventForCalendar(e, cal))\<close>, the clock read once per call
  from its \<open>k\<close>-th reading on.\<close>

definition mapFormat ::
  "js_env \<Rightarrow> (nat \<Rightarrow> jsstring) \<Rightarrow> nat \<Rightarrow> jsstring \<Rightarrow> UFCEvent list \<Rightarrow> EventAttributes list" where
  "mapFormat env clock k cal events =
     map (\<lambda>(i, e). formatEventForCalendar env (clock i) e cal) (enumerate k events)"

text \<open>The body of the \<open>try\<close> block: the error thrown, if any, and the process as the
  block leaves it.\<close>

definition createICS_try ::
  "js_env \<Rightarrow> (nat \<Rightarrow> jsstring) \<Rightarrow> jsstring + UFCEvent list option
     \<Rightarrow> (EventAttributes list \<Rightarrow> jsstring + jsstring) \<Rightarrow> process \<Rightarrow> error option \<times> process" where
  "createICS_try env clock getAllDetailedEvents createEvents proc =
     (case getAllDetailedEvents of
        Inl rejected \<Rightarrow> (Some (AcquisitionError rejected), proc)
      | Inr None \<Rightarrow> (Some NoEventsRetrieved, proc)
      | Inr (Some events) \<Rightarrow>
          if length events = 0 then (Some NoEventsRetrieved, proc)
          else
            (let formattedEvents = mapFormat env clock 0 (lit ''UFC'') events;
                 proc = callCreateEvents formattedEvents proc
             in case createEvents formattedEvents of
                  Inl allErr \<Rightarrow> (Some (SerializerError allErr), proc)
                | Inr allVal \<Rightarrow>
                    (let outDir = cwd env;
                         ufcPath = pathJoin env outDir (lit ''UFC.ics'');
                         proc = writeFileSync ufcPath allVal proc;
                         ppvEvents = filter isPayPerView events;
                         formattedPPV =
                           mapFormat env clock (length events) (lit ''UFC-PPV'') ppvEvents;
                         proc = callCreateEvents formattedPPV proc
                     in case createEvents formattedPPV of
                          Inl ppvErr \<Rightarrow> (Some (SerializerError ppvErr), proc)
                        | Inr ppvVal \<Rightarrow>
                            (let ppvPath = pathJoin env outDir (lit ''UFC-PPV.ics'')
                             in (None, writeFileSync ppvPath ppvVal proc)))))"

text \<open>The \<open>catch\<close> clause sets the exit code to 1 for every error.\<close>

definition createICS ::
  "js_env \<Rightarrow> (nat \<Rightarrow> jsstring) \<Rightarrow> jsstring + UFCEvent list option
     \<Rightarrow> (EventAttributes list \<Rightarrow> jsstring + jsstring) \<Rightarrow> process \<Rightarrow> process" where
  "createICS env clock getAllDetailedEvents createEvents proc =
     (case createICS_try env clock getAllDetailedEvents createEvents proc of
        (None, proc') \<Rightarrow> proc'
      | (Some err, proc') \<Rightarrow> proc'\<lparr>exitCode := Some 1\<rparr>)"

section \<open>A sample environment and sample events\<close>

text \<open>
  The examples below run in a process whose local time zone is UTC. Its numbers print
  in plain decimal notation with at most 17 fraction digits. That is what JavaScript
  prints for an integer and for a fraction with a short terminating expansion such as
  1.5 or 3.5, the only values the examples print; for other fractions JavaScript prints
  the shortest digits of the nearest double, which this sample printer does not
  reproduce. The general statements do not depend on it: they take the printer of
  numbers as a parameter of the environment.
\<close>

definition civilFromDays :: "int \<Rightarrow> int \<times> int \<times> int" where
  "civilFromDays days =
     (let z = days + 719468;
          era = z div 146097;
          doe = z mod 146097;
          yoe = (doe - doe div 1460 + doe div 36524 - doe div 146096) div 365;
          doy = doe - (365 * yoe + yoe div 4 - yoe div 100);
          mp = (5 * doy + 2) div 153;
          d = doy - (153 * mp + 2) div 5 + 1;
          m = (if mp < 10 then mp + 3 else mp - 9);
          y = yoe + era * 400 + (if m \<le> 2 then 1 else 0)
      in (y, m, d))"

fun natDigits :: "nat \<Rightarrow> jsstring" where
  "natDigits n =
     (if n < 10 then [of_nat n + 0x30] else natDigits (n div 10) @ [of_nat (n mod 10) + 0x30])"

fun fracDigits :: "nat \<Rightarrow> rat \<Rightarrow> jsstring" where
  "fracDigits k f =
     (if k = 0 \<or> f = 0 then []
      else (of_nat (nat \<lfloor>f * 10\<rfloor>) + 0x30) # fracDigits (k - 1) (f * 10 - of_int \<lfloor>f * 10\<rfloor>))"

definition decimalText :: "rat \<Rightarrow> jsstring" where
  "decimalText q =
     (let a = \<bar>q\<bar>; f = a - of_int \<lfloor>a\<rfloor>
      in (if q < 0 then lit ''-'' else []) @ natDigits (nat \<lfloor>a\<rfloor>)
           @ (if f = 0 then [] else lit ''.'' @ fracDigits 17 f))"

definition utc_env :: js_env where
  "utc_env =
     \<lparr>getFullYear = (\<lambda>t. fst (civilFromDays (t div 86400000))),
      getMonth = (\<lambda>t. fst (snd (civilFromDays (t div 86400000))) - 1),
      getDate = (\<lambda>t. snd (snd (civilFromDays (t div 86400000)))),
      getHours = (\<lambda>t. (t mod 86400000) div 3600000),
      getMinutes = (\<lambda>t. (t mod 3600000) div 60000),
      numberToString = decimalText,
      cwd = lit ''/work/ufc-cal'',
      pathJoin = (\<lambda>dir file. dir @ lit ''/'' @ file)\<rparr>"

text \<open>A numbered event with all four sections; its prelims start two hours and its
  early prelims three and a half hours before the main card.\<close>

definition ufc300 :: UFCEvent where
  "ufc300 =
     \<lparr>name = lit ''UFC 300'',
      date = lit ''1713060000'',
      location = lit ''Las Vegas'',
      url = \<lparr>href = lit ''https://example.com/ufc-300''\<rparr>,
      fightCard = [lit ''A vs B''],
      mainCard = [lit ''A vs B'', lit ''C vs D''],
      prelims = [lit ''E vs F''],
      earlyPrelims = [lit ''G vs H''],
      prelimsTime = Some (lit ''1713052800''),
      earlyPrelimsTime = Some (lit ''1713047400'')\<rparr>"

definition fightNight :: UFCEvent where
  "fightNight =
     \<lparr>name = lit ''UFC Fight Night: X vs Y'',
      date = lit ''1700000000'',
      location = lit ''Las Vegas'',
      url = \<lparr>href = lit ''https://example.com/e1''\<rparr>,
      fightCard = [lit ''A vs B''],
      mainCard = [],
      prelims = [],
      earlyPrelims = [],
      prelimsTime = None,
      earlyPrelimsTime = None\<rparr>"

text \<open>The same event with no prelims and no early prelims listed, and with its prelims
  listed but no time known for them.\<close>

definition cardOnly :: UFCEvent where
  "cardOnly = ufc300\<lparr>prelims := [], earlyPrelims := []\<rparr>"

definition untimedPrelims :: UFCEvent where
  "untimedPrelims = ufc300\<lparr>prelimsTime := None\<rparr>"

text \<open>Two readings of the clock, and a process that has not written anything yet.\<close>

definition stampA :: jsstring where
  "stampA = lit ''Apr 1, 9:00 AM EDT''"

definition stampB :: jsstring where
  "stampB = lit ''Apr 2, 9:00 AM EDT''"

definition freshProcess :: process where
  "freshProcess = \<lparr>files = Map.empty, exitCode = None, trace = []\<rparr>"

section \<open>The classifier\<close>

lemma match_here_Once:
  "match_here (Once a # ps) s = (\<exists>c cs. s = c # cs \<and> atom_matches a c \<and> match_here ps cs)"
  by (cases s) auto

lemma match_here_Plus:
  "match_here (Plus a # ps) s =
     (\<exists>xs rest. xs \<noteq> [] \<and> list_all (atom_matches a) xs \<and> s = xs @ rest \<and> match_here ps rest)"
proof (induction s)
  case Nil
  then show ?case by simp
next
  case (Cons c cs)
  show ?case
  proof
    assume m: "match_here (Plus a # ps) (c # cs)"
    then have ac: "atom_matches a c" by simp
    from m have "match_here (Plus a # ps) cs \<or> match_here ps cs" by simp
    then show "\<exists>xs rest. xs \<noteq> [] \<and> list_all (atom_matches a) xs \<and> c # cs = xs @ rest \<and> match_here ps rest"
    proof
      assume "match_here (Plus a # ps) cs"
      with Cons.IH obtain xs rest where
        "xs \<noteq> []" "list_all (atom_matches a) xs" "cs = xs @ rest" "match_here ps rest"
        by blast
      with ac have "c # xs \<noteq> [] \<and> list_all (atom_matches a) (c # xs)
          \<and> c # cs = (c # xs) @ rest \<and> match_here ps rest"
        by simp
      then show ?thesis by blast
    next
      assume "match_here ps cs"
      with ac have "[c] \<noteq> [] \<and> list_all (atom_matches a) [c] \<and> c # cs = [c] @ cs \<and> match_here ps cs"
        by simp
      then show ?thesis by blast
    qed
  next
    assume "\<exists>xs rest. xs \<noteq> [] \<and> list_all (atom_matches a) xs \<and> c # cs = xs @ rest \<and> match_here ps rest"
    then obtain xs rest where x: "xs \<noteq> []" "list_all (atom_matches a) xs"
        "c # cs = xs @ rest" "match_here ps rest"
      by blast
    then obtain ys where ys: "xs = c # ys" by (cases xs) auto
    with x have ac: "atom_matches a c" and ya: "list_all (atom_matches a) ys" and cs: "cs = ys @ rest"
      by auto
    show "match_here (Plus a # ps) (c # cs)"
    proof (cases "ys = []")
      case True
      with cs x ac show ?thesis by simp
    next
      case False
      with ya cs x have "match_here (Plus a # ps) cs" using Cons.IH by blast
      with ac show ?thesis by simp
    qed
  qed
qed

lemma test_iff: "test r s = (\<exists>pre rest. s = pre @ rest \<and> match_here r rest)"
proof (induction s)
  case Nil
  then show ?case by simp
next
  case (Cons c cs)
  show ?case
  proof
    assume "test r (c # cs)"
    then have "match_here r (c # cs) \<or> test r cs" by simp
    then show "\<exists>pre rest. c # cs = pre @ rest \<and> match_here r rest"
    proof
      assume "match_here r (c # cs)"
      then have "c # cs = [] @ (c # cs) \<and> match_here r (c # cs)" by simp
      then show ?thesis by blast
    next
      assume "test r cs"
      with Cons.IH obtain pre rest where "cs = pre @ rest" "match_here r rest" by blast
      then have "c # cs = (c # pre) @ rest \<and> match_here r rest" by simp
      then show ?thesis by blast
    qed
  next
    assume "\<exists>pre rest. c # cs = pre @ rest \<and> match_here r rest"
    then obtain pre rest where pr: "c # cs = pre @ rest" "match_here r rest" by blast
    show "test r (c # cs)"
    proof (cases "pre = []")
      case True
      with pr have "match_here r (c # cs)" by simp
      then show ?thesis by simp
    next
      case False
      then obtain p pre' where "pre = p # pre'" by (cases pre) auto
      with pr have "cs = pre' @ rest" by simp
      with pr(2) Cons.IH have "test r cs" by blast
      then show ?thesis by simp
    qed
  qed
qed

lemma lit_UFC: "lit ''UFC'' = [0x55, 0x46, 0x43]"
  by (simp add: lit_def)

lemma match_here_ppv:
  "match_here ppv_regex s =
     (\<exists>ws ds post. s = lit ''UFC'' @ ws @ ds @ post
        \<and> ws \<noteq> [] \<and> list_all isWhiteSpace ws \<and> ds \<noteq> [] \<and> list_all isDigit ds)"
proof -
  have am: "atom_matches WhiteSpaceClass = isWhiteSpace" "atom_matches DigitClass = isDigit"
    by (auto simp: fun_eq_iff)
  have "match_here ppv_regex s =
          (\<exists>r3. s = 0x55 # 0x46 # 0x43 # r3 \<and> match_here [Plus WhiteSpaceClass, Plus DigitClass] r3)"
    unfolding ppv_regex_def match_here_Once by auto
  also have "\<dots> = (\<exists>r3. s = 0x55 # 0x46 # 0x43 # r3 \<and>
          (\<exists>ws r4. ws \<noteq> [] \<and> list_all isWhiteSpace ws \<and> r3 = ws @ r4 \<and>
             (\<exists>ds post. ds \<noteq> [] \<and> list_all isDigit ds \<and> r4 = ds @ post)))"
    unfolding match_here_Plus am by simp
  also have "\<dots> = (\<exists>ws ds post. s = lit ''UFC'' @ ws @ ds @ post
        \<and> ws \<noteq> [] \<and> list_all isWhiteSpace ws \<and> ds \<noteq> [] \<and> list_all isDigit ds)"
    unfolding lit_UFC by (simp, blast)
  finally show ?thesis .
qed

lemma test_ppv_regex: "test ppv_regex n = name_matches_spec n"
  unfolding test_iff match_here_ppv name_matches_spec_def by blast

lemmas regex_eval = lit_def ppv_regex_def isWhiteSpace_def isDigit_def

lemma ppv_examples:
  "test ppv_regex (lit ''UFC 300'')"
  "test ppv_regex (lit ''UFC 1'')"
  "\<not> test ppv_regex (lit ''UFC Fight Night: X vs Y'')"
  "\<not> test ppv_regex (lit ''UFC Fight Night 50'')"
  "\<not> test ppv_regex (lit ''Contender Series'')"
  by (simp_all add: regex_eval)

text \<open>
  C1. The classifier returns true for an event exactly when the name of the event
  contains the token UFC, then one or more white space characters, then one or more
  decimal digits. The names UFC 300 and UFC 1 are classified as pay-per-view; the names
  UFC Fight Night: X vs Y and Contender Series are not.
\<close>

theorem classifier_matches_pattern:
  "isPayPerView e = name_matches_spec (name e)
   \<and> isPayPerView (e\<lparr>name := lit ''UFC 300''\<rparr>)
   \<and> isPayPerView (e\<lparr>name := lit ''UFC 1''\<rparr>)
   \<and> isPayPerView (e\<lparr>name := lit ''UFC Fight Night: X vs Y''\<rparr>) = False
   \<and> isPayPerView (e\<lparr>name := lit ''Contender Series''\<rparr>) = False"
  by (simp add: isPayPerView_def test_ppv_regex [symmetric] ppv_examples)

theorem classifier_matches_pattern_witness:
  "isPayPerView ufc300 \<and> name_matches_spec (name ufc300)
   \<and> isPayPerView fightNight = False \<and> name_matches_spec (name fightNight) = False"
proof -
  have a: "isPayPerView ufc300"
    by (simp add: isPayPerView_def ufc300_def ppv_examples)
  have b: "isPayPerView fightNight = False"
    by (simp add: isPayPerView_def fightNight_def ppv_examples)
  from a b classifier_matches_pattern [of ufc300] classifier_matches_pattern [of fightNight]
  show ?thesis by simp
qed

section \<open>The calendar entry\<close>

lemma lit_eq_Nil [simp]: "(lit s = []) = (s = [])"
  by (simp add: lit_def)

lemma description_footer:
  "\<exists>body. \<forall>ts. description (formatEventForCalendar env ts e cal)
      = body @ lit ''\<newline>Accurate as of '' @ ts"
  unfolding formatEventForCalendar_def Let_def EventAttributes.simps
  by (rule exI, rule allI, rule refl)

lemma entry_fields:
  "start (formatEventForCalendar env ts e cal) = start (formatEventForCalendar env ts' e cal')"
  "duration (formatEventForCalendar env ts e cal) = \<lparr>hours = 3\<rparr>"
  "title (formatEventForCalendar env ts e cal) = name e"
  "location (formatEventForCalendar env ts e cal) = UFCEvent.location e"
  "uid (formatEventForCalendar env ts e cal) = href (url e)"
  "calName (formatEventForCalendar env ts e cal) = cal"
  "alarms (formatEventForCalendar env ts e cal) =
     [\<lparr>action = lit ''display'', description = name e @ lit '' starting soon!'',
       trigger = \<lparr>minutes = 30, before = True\<rparr>\<rparr>]"
  "description (formatEventForCalendar env ts e cal) = description (formatEventForCalendar env ts e cal')"
  by (simp_all add: formatEventForCalendar_def Let_def)

text \<open>
  C3. When the fight card of an event is not empty, its description starts with the
  entries of the fight card joined by line feeds, with no header in front, followed by
  a line feed; the Main Card header, when the event has a main card, comes right after.
\<close>

theorem fight_card_leads_description:
  "fightCard e \<noteq> [] \<Longrightarrow>
   \<exists>rest. description (formatEventForCalendar env ts e cal) =
     join (lit ''\<newline>'') (fightCard e) @ lit ''\<newline>''
     @ (if mainCard e \<noteq> []
        then lit ''Main Card\<newline>--------------------\<newline>''
               @ join (lit ''\<newline>'') (mainCard e) @ lit ''\<newline>''
        else [])
     @ rest"
  by (simp add: formatEventForCalendar_def Let_def)

theorem fight_card_leads_description_witness:
  "fightCard fightNight \<noteq> []
   \<and> (\<exists>rest. description (formatEventForCalendar utc_env stampA fightNight (lit ''UFC'')) =
         lit ''A vs B'' @ lit ''\<newline>'' @ rest)
   \<and> fightCard ufc300 \<noteq> []
   \<and> (\<exists>rest. description (formatEventForCalendar utc_env stampA ufc300 (lit ''UFC'')) =
         lit ''A vs B'' @ lit ''\<newline>''
         @ lit ''Main Card\<newline>--------------------\<newline>''
         @ lit ''A vs B'' @ lit ''\<newline>'' @ lit ''C vs D'' @ lit ''\<newline>'' @ rest)"
proof -
  have a: "fightCard fightNight \<noteq> []" and b: "fightCard ufc300 \<noteq> []"
    by (simp_all add: fightNight_def ufc300_def)
  have c: "mainCard fightNight = []" "fightCard fightNight = [lit ''A vs B'']"
    "mainCard ufc300 = [lit ''A vs B'', lit ''C vs D'']" "fightCard ufc300 = [lit ''A vs B'']"
    by (simp_all add: fightNight_def ufc300_def)
  from fight_card_leads_description [OF a, of utc_env stampA "lit ''UFC''"]
       fight_card_leads_description [OF b, of utc_env stampA "lit ''UFC''"]
  show ?thesis using a b by (simp add: c)
qed

text \<open>
  C4. The uid of the calendar entry of an event is the absolute url string of the
  event (the \<open>href\<close> of its URL), whatever its date.
\<close>

theorem uid_is_event_url:
  "uid (formatEventForCalendar env ts e cal) = href (url e)"
  by (simp add: formatEventForCalendar_def Let_def)

theorem uid_is_event_url_witness:
  "uid (formatEventForCalendar utc_env stampA ufc300 (lit ''UFC'')) = lit ''https://example.com/ufc-300''"
proof -
  have "href (url ufc300) = lit ''https://example.com/ufc-300''"
    by (simp add: ufc300_def)
  with uid_is_event_url [of utc_env stampA ufc300 "lit ''UFC''"] show ?thesis by simp
qed

text \<open>
  C6. The duration of the calendar entry is three hours for every event, every
  calendar name and every reading of the clock.
\<close>

theorem duration_three_hours:
  "duration (formatEventForCalendar env ts e cal) = \<lparr>hours = 3\<rparr>"
  by (simp add: formatEventForCalendar_def Let_def)

theorem duration_three_hours_witness:
  "hours (duration (formatEventForCalendar utc_env stampA fightNight (lit ''UFC''))) = 3"
  using duration_three_hours [of utc_env stampA fightNight "lit ''UFC''"] by simp

text \<open>
  C7. The calendar entry carries exactly one alarm: a display alarm, triggered 30
  minutes before the start, whose text is the title of the entry followed by
  \<open>starting soon!\<close> after a space. The title is the name of the event.
\<close>

theorem one_alarm_before_start:
  "alarms (formatEventForCalendar env ts e cal) =
     [\<lparr>action = lit ''display'',
       description = title (formatEventForCalendar env ts e cal) @ lit '' starting soon!'',
       trigger = \<lparr>minutes = 30, before = True\<rparr>\<rparr>]
   \<and> title (formatEventForCalendar env ts e cal) = name e"
  by (simp add: formatEventForCalendar_def Let_def)

theorem one_alarm_before_start_witness:
  "alarms (formatEventForCalendar utc_env stampA ufc300 (lit ''UFC'')) =
     [\<lparr>action = lit ''display'',
       description = lit ''UFC 300'' @ lit '' starting soon!'',
       trigger = \<lparr>minutes = 30, before = True\<rparr>\<rparr>]"
proof -
  have "name ufc300 = lit ''UFC 300''"
    by (simp add: ufc300_def)
  with one_alarm_before_start [of utc_env stampA ufc300 "lit ''UFC''"] show ?thesis by simp
qed

lemma entry_calName_only:
  "start (formatEventForCalendar env ts e cal) = start (formatEventForCalendar env ts' e cal')"
  "duration (formatEventForCalendar env ts e cal) = duration (formatEventForCalendar env ts' e cal')"
  "title (formatEventForCalendar env ts e cal) = title (formatEventForCalendar env ts' e cal')"
  "location (formatEventForCalendar env ts e cal) = location (formatEventForCalendar env ts' e cal')"
  "uid (formatEventForCalendar env ts e cal) = uid (formatEventForCalendar env ts' e cal')"
  "alarms (formatEventForCalendar env ts e cal) = alarms (formatEventForCalendar env ts' e cal')"
  "description (formatEventForCalendar env ts e cal) = description (formatEventForCalendar env ts e cal')"
  by (simp_all add: formatEventForCalendar_def Let_def)

lemma mapFormat_length: "length (mapFormat env clock k cal events) = length events"
  by (simp add: mapFormat_def)

lemma mapFormat_nth:
  "i < length events \<Longrightarrow>
   mapFormat env clock k cal events ! i = formatEventForCalendar env (clock (k + i)) (events ! i) cal"
  by (simp add: mapFormat_def nth_enumerate_eq)

text \<open>
  C5. Two runs of the mapping over the same list of events, in the same environment
  but with different readings of the clock, give lists of the same length whose entries
  agree, position by position, on uid, title, start, duration, location, calendar name
  and alarms. The two descriptions of a position have the same text up to and including
  the words \<open>Accurate as of\<close>, and end with the reading of the clock of their own
  call.
\<close>

theorem rerun_differs_in_timestamp_only:
  "length (mapFormat env clock1 k1 cal events) = length events
   \<and> length (mapFormat env clock2 k2 cal events) = length events
   \<and> (\<forall>i<length events.
        uid (mapFormat env clock1 k1 cal events ! i) = uid (mapFormat env clock2 k2 cal events ! i)
        \<and> title (mapFormat env clock1 k1 cal events ! i) = title (mapFormat env clock2 k2 cal events ! i)
        \<and> start (mapFormat env clock1 k1 cal events ! i) = start (mapFormat env clock2 k2 cal events ! i)
        \<and> duration (mapFormat env clock1 k1 cal events ! i)
            = duration (mapFormat env clock2 k2 cal events ! i)
        \<and> location (mapFormat env clock1 k1 cal events ! i)
            = location (mapFormat env clock2 k2 cal events ! i)
        \<and> calName (mapFormat env clock1 k1 cal events ! i)
            = calName (mapFormat env clock2 k2 cal events ! i)
        \<and> alarms (mapFormat env clock1 k1 cal events ! i) = alarms (mapFormat env clock2 k2 cal events ! i)
        \<and> (\<exists>body.
              description (mapFormat env clock1 k1 cal events ! i)
                = body @ lit ''\<newline>Accurate as of '' @ clock1 (k1 + i)
              \<and> description (mapFormat env clock2 k2 cal events ! i)
                = body @ lit ''\<newline>Accurate as of '' @ clock2 (k2 + i)))"
proof (intro conjI allI impI)
  fix i
  assume i: "i < length events"
  obtain body where body: "\<And>ts. description (formatEventForCalendar env ts (events ! i) cal)
      = body @ lit ''\<newline>Accurate as of '' @ ts"
    using description_footer [of env "events ! i" cal] by blast
  show "\<exists>body.
          description (mapFormat env clock1 k1 cal events ! i)
            = body @ lit ''\<newline>Accurate as of '' @ clock1 (k1 + i)
          \<and> description (mapFormat env clock2 k2 cal events ! i)
            = body @ lit ''\<newline>Accurate as of '' @ clock2 (k2 + i)"
    using body by (simp only: mapFormat_nth [OF i]) blast
  show "start (mapFormat env clock1 k1 cal events ! i) = start (mapFormat env clock2 k2 cal events ! i)"
    by (simp only: mapFormat_nth [OF i]) (rule entry_fields)
qed (simp_all add: mapFormat_length mapFormat_nth entry_fields(2-7))

theorem rerun_differs_in_timestamp_only_witness:
  "uid (mapFormat utc_env (\<lambda>k. stampA) 0 (lit ''UFC'') [ufc300, fightNight] ! 1)
     = uid (mapFormat utc_env (\<lambda>k. stampB) 0 (lit ''UFC'') [ufc300, fightNight] ! 1)
   \<and> start (mapFormat utc_env (\<lambda>k. stampA) 0 (lit ''UFC'') [ufc300, fightNight] ! 1)
     = start (mapFormat utc_env (\<lambda>k. stampB) 0 (lit ''UFC'') [ufc300, fightNight] ! 1)
   \<and> (\<exists>body.
         description (mapFormat utc_env (\<lambda>k. stampA) 0 (lit ''UFC'') [ufc300, fightNight] ! 1)
           = body @ lit ''\<newline>Accurate as of '' @ stampA
         \<and> description (mapFormat utc_env (\<lambda>k. stampB) 0 (lit ''UFC'') [ufc300, fightNight] ! 1)
           = body @ lit ''\<newline>Accurate as of '' @ stampB)"
proof -
  have "(1::nat) < length [ufc300, fightNight]" by simp
  with rerun_differs_in_timestamp_only
         [of utc_env "\<lambda>k. stampA" 0 "lit ''UFC''" "[ufc300, fightNight]" "\<lambda>k. stampB" 0]
  show ?thesis by blast
qed

section \<open>The two feeds of a run\<close>

lemma filter_nth_take:
  assumes "i < length xs" and "P (xs ! i)"
  shows "length (filter P (take i xs)) < length (filter P xs)
         \<and> filter P xs ! length (filter P (take i xs)) = xs ! i"
proof -
  have xs: "xs = take i xs @ xs ! i # drop (Suc i) xs"
    using assms(1) by (simp add: id_take_nth_drop)
  have "filter P xs = filter P (take i xs) @ xs ! i # filter P (drop (Suc i) xs)"
    using assms(2) by (subst xs) simp
  then show ?thesis by (simp add: nth_append)
qed

lemma createICS_trace_success:
  assumes "events \<noteq> []"
    and "createEvents (mapFormat env clock 0 (lit ''UFC'') events) = Inr allVal"
  shows "\<exists>rest. trace (createICS env clock (Inr (Some events)) createEvents proc)
     = trace proc
       @ [CreateEvents (mapFormat env clock 0 (lit ''UFC'') events),
          WriteFileSync (pathJoin env (cwd env) (lit ''UFC.ics'')) allVal,
          CreateEvents (mapFormat env clock (length events) (lit ''UFC-PPV'')
                          (filter isPayPerView events))]
       @ rest"
  using assms
  by (cases "createEvents (mapFormat env clock (length events) (lit ''UFC-PPV'')
                             (filter isPayPerView events))")
     (simp_all add: createICS_def createICS_try_def callCreateEvents_def writeFileSync_def Let_def)

text \<open>
  C10. In a run whose full feed is serialized, the serializer is called with the
  entries of the full feed, the file of the full feed is written, and the serializer is
  called with the entries of the pay-per-view feed, one for each event the classifier
  keeps. For every event of the list that the classifier keeps, the entry of the
  pay-per-view feed made from it and the entry of the full feed made from it agree on
  start, duration, title, location, uid and alarms, and on the description when the two
  calls read the same time from the clock; the calendar name of the first is
  \<open>UFC-PPV\<close>, that of the second is \<open>UFC\<close>, and the two names differ.
\<close>

theorem ppv_feed_entry_differs_in_calName_only:
  assumes "events \<noteq> []"
    and "createEvents (mapFormat env clock 0 (lit ''UFC'') events) = Inr allVal"
  shows "\<exists>full ppv rest.
      trace (createICS env clock (Inr (Some events)) createEvents proc)
        = trace proc
          @ [CreateEvents full,
             WriteFileSync (pathJoin env (cwd env) (lit ''UFC.ics'')) allVal,
             CreateEvents ppv]
          @ rest
      \<and> length full = length events
      \<and> length ppv = length (filter isPayPerView events)
      \<and> lit ''UFC-PPV'' \<noteq> lit ''UFC''
      \<and> (\<forall>i<length events. isPayPerView (events ! i) \<longrightarrow>
           (let j = length (filter isPayPerView (take i events))
            in j < length ppv
               \<and> full ! i = formatEventForCalendar env (clock i) (events ! i) (lit ''UFC'')
               \<and> ppv ! j = formatEventForCalendar env (clock (length events + j)) (events ! i)
                              (lit ''UFC-PPV'')
               \<and> calName (ppv ! j) = lit ''UFC-PPV''
               \<and> calName (full ! i) = lit ''UFC''
               \<and> start (ppv ! j) = start (full ! i)
               \<and> duration (ppv ! j) = duration (full ! i)
               \<and> title (ppv ! j) = title (full ! i)
               \<and> location (ppv ! j) = location (full ! i)
               \<and> uid (ppv ! j) = uid (full ! i)
               \<and> alarms (ppv ! j) = alarms (full ! i)
               \<and> (clock (length events + j) = clock i \<longrightarrow>
                    description (ppv ! j) = description (full ! i))))"
proof -
  let ?full = "mapFormat env clock 0 (lit ''UFC'') events"
  let ?ppv = "mapFormat env clock (length events) (lit ''UFC-PPV'') (filter isPayPerView events)"
  obtain rest where tr: "trace (createICS env clock (Inr (Some events)) createEvents proc)
      = trace proc
        @ [CreateEvents ?full, WriteFileSync (pathJoin env (cwd env) (lit ''UFC.ics'')) allVal,
           CreateEvents ?ppv]
        @ rest"
    using assms
      createICS_trace_success [where events = events and createEvents = createEvents
        and env = env and clock = clock and allVal = allVal and proc = proc]
    by blast
  have names: "lit ''UFC-PPV'' \<noteq> lit ''UFC''"
    by (simp add: lit_def)
  have each: "\<forall>i<length events. isPayPerView (events ! i) \<longrightarrow>
           (let j = length (filter isPayPerView (take i events))
            in j < length ?ppv
               \<and> ?full ! i = formatEventForCalendar env (clock i) (events ! i) (lit ''UFC'')
               \<and> ?ppv ! j = formatEventForCalendar env (clock (length events + j)) (events ! i)
                              (lit ''UFC-PPV'')
               \<and> calName (?ppv ! j) = lit ''UFC-PPV''
               \<and> calName (?full ! i) = lit ''UFC''
               \<and> start (?ppv ! j) = start (?full ! i)
               \<and> duration (?ppv ! j) = duration (?full ! i)
               \<and> title (?ppv ! j) = title (?full ! i)
               \<and> location (?ppv ! j) = location (?full ! i)
               \<and> uid (?ppv ! j) = uid (?full ! i)
               \<and> alarms (?ppv ! j) = alarms (?full ! i)
               \<and> (clock (length events + j) = clock i \<longrightarrow>
                    description (?ppv ! j) = description (?full ! i)))"
  proof (intro allI impI)
    fix i
    assume i: "i < length events" and p: "isPayPerView (events ! i)"
    define j where "j = length (filter isPayPerView (take i events))"
    from filter_nth_take [OF i, of isPayPerView] p
    have jlt: "j < length (filter isPayPerView events)"
      and jth: "filter isPayPerView events ! j = events ! i"
      by (simp_all add: j_def)
    have f: "?full ! i = formatEventForCalendar env (clock i) (events ! i) (lit ''UFC'')"
      using mapFormat_nth [OF i, of env clock 0 "lit ''UFC''"] by simp
    have g: "?ppv ! j = formatEventForCalendar env (clock (length events + j)) (events ! i)
                          (lit ''UFC-PPV'')"
      using mapFormat_nth [OF jlt, of env clock "length events" "lit ''UFC-PPV''"] jth by simp
    have cf: "calName (?full ! i) = lit ''UFC''" and cg: "calName (?ppv ! j) = lit ''UFC-PPV''"
      by (simp_all only: f g entry_fields)
    have "j < length ?ppv
               \<and> ?full ! i = formatEventForCalendar env (clock i) (events ! i) (lit ''UFC'')
               \<and> ?ppv ! j = formatEventForCalendar env (clock (length events + j)) (events ! i)
                              (lit ''UFC-PPV'')
               \<and> calName (?ppv ! j) = lit ''UFC-PPV''
               \<and> calName (?full ! i) = lit ''UFC''
               \<and> start (?ppv ! j) = start (?full ! i)
               \<and> duration (?ppv ! j) = duration (?full ! i)
               \<and> title (?ppv ! j) = title (?full ! i)
               \<and> location (?ppv ! j) = location (?full ! i)
               \<and> uid (?ppv ! j) = uid (?full ! i)
               \<and> alarms (?ppv ! j) = alarms (?full ! i)
               \<and> (clock (length events + j) = clock i \<longrightarrow>
                    description (?ppv ! j) = description (?full ! i))"
    proof (intro conjI impI)
      show "j < length ?ppv" using jlt by (simp add: mapFormat_length)
      show "?full ! i = formatEventForCalendar env (clock i) (events ! i) (lit ''UFC'')"
        by (rule f)
      show "?ppv ! j = formatEventForCalendar env (clock (length events + j)) (events ! i)
                              (lit ''UFC-PPV'')"
        by (rule g)
      show "calName (?ppv ! j) = lit ''UFC-PPV''" by (rule cg)
      show "calName (?full ! i) = lit ''UFC''" by (rule cf)
      show "start (?ppv ! j) = start (?full ! i)" unfolding f g by (rule entry_calName_only)
      show "duration (?ppv ! j) = duration (?full ! i)" unfolding f g by (rule entry_calName_only)
      show "title (?ppv ! j) = title (?full ! i)" unfolding f g by (rule entry_calName_only)
      show "location (?ppv ! j) = location (?full ! i)" unfolding f g by (rule entry_calName_only)
      show "uid (?ppv ! j) = uid (?full ! i)" unfolding f g by (rule entry_calName_only)
      show "alarms (?ppv ! j) = alarms (?full ! i)" unfolding f g by (rule entry_calName_only)
      assume "clock (length events + j) = clock i"
      then show "description (?ppv ! j) = description (?full ! i)"
        unfolding f g by (simp add: entry_calName_only(7) [of env "clock i" "events ! i" "lit ''UFC-PPV''" "lit ''UFC''"])
    qed
    then show "let j = length (filter isPayPerView (take i events))
            in j < length ?ppv
               \<and> ?full ! i = formatEventForCalendar env (clock i) (events ! i) (lit ''UFC'')
               \<and> ?ppv ! j = formatEventForCalendar env (clock (length events + j)) (events ! i)
                              (lit ''UFC-PPV'')
               \<and> calName (?ppv ! j) = lit ''UFC-PPV''
               \<and> calName (?full ! i) = lit ''UFC''
               \<and> start (?ppv ! j) = start (?full ! i)
               \<and> duration (?ppv ! j) = duration (?full ! i)
               \<and> title (?ppv ! j) = title (?full ! i)
               \<and> location (?ppv ! j) = location (?full ! i)
               \<and> uid (?ppv ! j) = uid (?full ! i)
               \<and> alarms (?ppv ! j) = alarms (?full ! i)
               \<and> (clock (length events + j) = clock i \<longrightarrow>
                    description (?ppv ! j) = description (?full ! i))"
      unfolding Let_def j_def .
  qed
  have "trace (createICS env clock (Inr (Some events)) createEvents proc)
        = trace proc
          @ [CreateEvents ?full,
             WriteFileSync (pathJoin env (cwd env) (lit ''UFC.ics'')) allVal,
             CreateEvents ?ppv]
          @ rest
      \<and> length ?full = length events
      \<and> length ?ppv = length (filter isPayPerView events)
      \<and> lit ''UFC-PPV'' \<noteq> lit ''UFC''"
    using tr names by (simp add: mapFormat_length)
  with each show ?thesis by blast
qed

theorem ppv_feed_entry_differs_in_calName_only_witness:
  "\<exists>full ppv rest.
      trace (createICS utc_env (\<lambda>k. stampA) (Inr (Some [ufc300, fightNight]))
               (\<lambda>entries. Inr (lit ''BEGIN:VCALENDAR'')) freshProcess)
        = [CreateEvents full,
           WriteFileSync (lit ''/work/ufc-cal'' @ lit ''/'' @ lit ''UFC.ics'') (lit ''BEGIN:VCALENDAR''),
           CreateEvents ppv]
          @ rest
      \<and> length full = 2
      \<and> length ppv = 1
      \<and> isPayPerView ufc300
      \<and> full ! 0 = formatEventForCalendar utc_env stampA ufc300 (lit ''UFC'')
      \<and> ppv ! 0 = formatEventForCalendar utc_env stampA ufc300 (lit ''UFC-PPV'')
      \<and> calName (ppv ! 0) = lit ''UFC-PPV''
      \<and> calName (full ! 0) = lit ''UFC''
      \<and> start (ppv ! 0) = start (full ! 0)
      \<and> uid (ppv ! 0) = uid (full ! 0)
      \<and> description (ppv ! 0) = description (full ! 0)"
proof -
  have a: "[ufc300, fightNight] \<noteq> []" by simp
  have b: "(\<lambda>entries. Inr (lit ''BEGIN:VCALENDAR'') :: jsstring + jsstring)
             (mapFormat utc_env (\<lambda>k. stampA) 0 (lit ''UFC'') [ufc300, fightNight])
           = Inr (lit ''BEGIN:VCALENDAR'')"
    by simp
  have p: "isPayPerView ufc300"
    by (simp add: isPayPerView_def ufc300_def ppv_examples)
  have q: "\<not> isPayPerView fightNight"
    by (simp add: isPayPerView_def fightNight_def ppv_examples)
  have paths: "pathJoin utc_env (cwd utc_env) (lit ''UFC.ics'')
      = lit ''/work/ufc-cal'' @ lit ''/'' @ lit ''UFC.ics''"
    by (simp add: utc_env_def)
  from ppv_feed_entry_differs_in_calName_only [OF a b, where proc = freshProcess]
  obtain full ppv rest where
    tr: "trace (createICS utc_env (\<lambda>k. stampA) (Inr (Some [ufc300, fightNight]))
               (\<lambda>entries. Inr (lit ''BEGIN:VCALENDAR'')) freshProcess)
        = trace freshProcess
          @ [CreateEvents full,
             WriteFileSync (pathJoin utc_env (cwd utc_env) (lit ''UFC.ics'')) (lit ''BEGIN:VCALENDAR''),
             CreateEvents ppv]
          @ rest"
    and lf: "length full = length [ufc300, fightNight]"
    and lp: "length ppv = length (filter isPayPerView [ufc300, fightNight])"
    and each: "\<forall>i<length [ufc300, fightNight]. isPayPerView ([ufc300, fightNight] ! i) \<longrightarrow>
           (let j = length (filter isPayPerView (take i [ufc300, fightNight]))
            in j < length ppv
               \<and> full ! i = formatEventForCalendar utc_env stampA ([ufc300, fightNight] ! i)
                              (lit ''UFC'')
               \<and> ppv ! j = formatEventForCalendar utc_env stampA ([ufc300, fightNight] ! i)
                              (lit ''UFC-PPV'')
               \<and> calName (ppv ! j) = lit ''UFC-PPV''
               \<and> calName (full ! i) = lit ''UFC''
               \<and> start (ppv ! j) = start (full ! i)
               \<and> duration (ppv ! j) = duration (full ! i)
               \<and> title (ppv ! j) = title (full ! i)
               \<and> location (ppv ! j) = location (full ! i)
               \<and> uid (ppv ! j) = uid (full ! i)
               \<and> alarms (ppv ! j) = alarms (full ! i)
               \<and> (stampA = stampA \<longrightarrow> description (ppv ! j) = description (full ! i)))"
    by blast
  have "(0::nat) < length [ufc300, fightNight] \<and> isPayPerView ([ufc300, fightNight] ! 0)"
    using p by simp
  with each have z: "(let j = length (filter isPayPerView (take 0 [ufc300, fightNight]))
            in j < length ppv
               \<and> full ! 0 = formatEventForCalendar utc_env stampA ([ufc300, fightNight] ! 0)
                              (lit ''UFC'')
               \<and> ppv ! j = formatEventForCalendar utc_env stampA ([ufc300, fightNight] ! 0)
                              (lit ''UFC-PPV'')
               \<and> calName (ppv ! j) = lit ''UFC-PPV''
               \<and> calName (full ! 0) = lit ''UFC''
               \<and> start (ppv ! j) = start (full ! 0)
               \<and> duration (ppv ! j) = duration (full ! 0)
               \<and> title (ppv ! j) = title (full ! 0)
               \<and> location (ppv ! j) = location (full ! 0)
               \<and> uid (ppv ! j) = uid (full ! 0)
               \<and> alarms (ppv ! j) = alarms (full ! 0)
               \<and> (stampA = stampA \<longrightarrow> description (ppv ! j) = description (full ! 0)))"
    by blast
  from z have z0: "0 < length ppv
      \<and> full ! 0 = formatEventForCalendar utc_env stampA ufc300 (lit ''UFC'')
      \<and> ppv ! 0 = formatEventForCalendar utc_env stampA ufc300 (lit ''UFC-PPV'')
      \<and> calName (ppv ! 0) = lit ''UFC-PPV''
      \<and> calName (full ! 0) = lit ''UFC''
      \<and> start (ppv ! 0) = start (full ! 0)
      \<and> duration (ppv ! 0) = duration (full ! 0)
      \<and> title (ppv ! 0) = title (full ! 0)
      \<and> location (ppv ! 0) = location (full ! 0)
      \<and> uid (ppv ! 0) = uid (full ! 0)
      \<and> alarms (ppv ! 0) = alarms (full ! 0)
      \<and> description (ppv ! 0) = description (full ! 0)"
    unfolding Let_def take_0 filter.simps list.size nth_Cons_0 simp_thms .
  then have z': "full ! 0 = formatEventForCalendar utc_env stampA ufc300 (lit ''UFC'')
      \<and> ppv ! 0 = formatEventForCalendar utc_env stampA ufc300 (lit ''UFC-PPV'')
      \<and> calName (ppv ! 0) = lit ''UFC-PPV''
      \<and> calName (full ! 0) = lit ''UFC''
      \<and> start (ppv ! 0) = start (full ! 0)
      \<and> uid (ppv ! 0) = uid (full ! 0)
      \<and> description (ppv ! 0) = description (full ! 0)"
    by blast
  have tr': "trace (createICS utc_env (\<lambda>k. stampA) (Inr (Some [ufc300, fightNight]))
               (\<lambda>entries. Inr (lit ''BEGIN:VCALENDAR'')) freshProcess)
        = [CreateEvents full,
           WriteFileSync (lit ''/work/ufc-cal'' @ lit ''/'' @ lit ''UFC.ics'') (lit ''BEGIN:VCALENDAR''),
           CreateEvents ppv]
          @ rest"
    using tr by (simp add: paths freshProcess_def)
  have lf': "length full = 2" using lf by simp
  have lp': "length ppv = 1" using lp p q by simp
  from tr' lf' lp' p z' show ?thesis by blast
qed

section \<open>The Prelims header\<close>

lemma newDate_empty: "newDate [] = None"
  by (simp add: newDate_def parseInt_def)

lemmas parse_defs = newDate_def parseInt_def lit_def isWhiteSpace_def digitValue_def Let_def

lemma newDate_main: "newDate (lit ''1713060000'') = Some 1713060000000"
  by (simp add: parse_defs)

lemma newDate_prelims: "newDate (lit ''1713052800'') = Some 1713052800000"
  by (simp add: parse_defs)

lemma newDate_early: "newDate (lit ''1713047400'') = Some 1713047400000"
  by (simp add: parse_defs)

lemma parseInt_main: "parseInt (lit ''1713060000'') = Some 1713060000"
  by (simp add: parse_defs)

lemma parseInt_prelims: "parseInt (lit ''1713052800'') = Some 1713052800"
  by (simp add: parse_defs)

lemma decimalText_2: "decimalText 2 = lit ''2''"
  by code_simp

lemma decimalText_7_2: "decimalText (7 / 2) = lit ''3.5''"
  by code_simp

lemma hours_prelims: "rat_of_int (1713060000000 - 1713052800000) / 3600000 = 2"
  by simp

lemma ufc300_fields:
  "date ufc300 = lit ''1713060000''"
  "fightCard ufc300 = [lit ''A vs B'']"
  "mainCard ufc300 = [lit ''A vs B'', lit ''C vs D'']"
  "prelims ufc300 = [lit ''E vs F'']"
  "prelimsTime ufc300 = Some (lit ''1713052800'')"
  by (simp_all add: ufc300_def)

lemma untimedPrelims_fields:
  "date untimedPrelims = lit ''1713060000''"
  "fightCard untimedPrelims = [lit ''A vs B'']"
  "mainCard untimedPrelims = [lit ''A vs B'', lit ''C vs D'']"
  "prelims untimedPrelims = [lit ''E vs F'']"
  "prelimsTime untimedPrelims = None"
  by (simp_all add: untimedPrelims_def ufc300_def)

lemma cardOnly_fields:
  "date cardOnly = lit ''1713060000''"
  "prelimsTime cardOnly = Some (lit ''1713052800'')"
  "fightCard cardOnly = [lit ''A vs B'']"
  "mainCard cardOnly = [lit ''A vs B'', lit ''C vs D'']"
  "prelims cardOnly = []"
  "earlyPrelims cardOnly = []"
  "href (url cardOnly) = lit ''https://example.com/ufc-300''"
  by (simp_all add: cardOnly_def ufc300_def)

lemmas sample_defs = formatEventForCalendar_def Let_def utc_env_def ufc300_def cardOnly_def
  untimedPrelims_def truthy_def positive_def hoursBetween_def newDate_main newDate_prelims
  newDate_early decimalText_2 decimalText_7_2

lemma description_cardOnly:
  "description (formatEventForCalendar utc_env ts cardOnly cal) =
     lit ''A vs B'' @ lit ''\<newline>''
     @ lit ''Main Card\<newline>--------------------\<newline>''
     @ lit ''A vs B'' @ lit ''\<newline>'' @ lit ''C vs D'' @ lit ''\<newline>''
     @ lit ''\<newline>'' @ lit ''https://example.com/ufc-300'' @ lit ''\<newline>''
     @ lit ''\<newline>Accurate as of '' @ ts"
  by (simp add: sample_defs)

lemma description_untimedPrelims:
  "description (formatEventForCalendar utc_env ts untimedPrelims cal) =
     lit ''A vs B'' @ lit ''\<newline>''
     @ lit ''Main Card\<newline>--------------------\<newline>''
     @ lit ''A vs B'' @ lit ''\<newline>'' @ lit ''C vs D'' @ lit ''\<newline>''
     @ lit ''\<newline>Prelims''
     @ lit ''\<newline>--------------------\<newline>'' @ lit ''E vs F'' @ lit ''\<newline>''
     @ lit ''\<newline>Early Prelims'' @ lit '' ('' @ lit ''3.5'' @ lit '' hrs before Main)''
     @ lit ''\<newline>--------------------\<newline>'' @ lit ''G vs H'' @ lit ''\<newline>''
     @ lit ''\<newline>'' @ lit ''https://example.com/ufc-300'' @ lit ''\<newline>''
     @ lit ''\<newline>Accurate as of '' @ ts"
  by (simp add: sample_defs)

lemma cardOnly_no_suffix:
  "\<not> sublist (lit '' hrs before Main)'')
      (description (formatEventForCalendar utc_env stampA cardOnly (lit ''UFC'')))"
  unfolding description_cardOnly stampA_def by code_simp

lemma untimed_has_suffix:
  "sublist (lit '' hrs before Main)'')
     (description (formatEventForCalendar utc_env stampA untimedPrelims (lit ''UFC'')))"
  unfolding description_untimedPrelims stampA_def by code_simp

text \<open>
  C2, as stated, fails in both directions. The event \<open>cardOnly\<close> has a time for its
  prelims that is two hours before its date, and its description does not contain the
  words \<open>hrs before Main)\<close>: it lists no prelims, so there is no Prelims header to
  attach them to. The event \<open>untimedPrelims\<close> has no time for its prelims, and its
  description contains the words: they belong to the Early Prelims header.
\<close>

theorem prelims_suffix_counterexample:
  "prelimsTime cardOnly = Some (lit ''1713052800'')
   \<and> parseInt (lit ''1713052800'') = Some 1713052800
   \<and> parseInt (date cardOnly) = Some 1713060000
   \<and> \<not> sublist (lit '' hrs before Main)'')
         (description (formatEventForCalendar utc_env stampA cardOnly (lit ''UFC'')))
   \<and> prelimsTime untimedPrelims = None
   \<and> sublist (lit '' hrs before Main)'')
         (description (formatEventForCalendar utc_env stampA untimedPrelims (lit ''UFC'')))"
  by (simp add: cardOnly_fields untimedPrelims_fields parseInt_main parseInt_prelims
        cardOnly_no_suffix untimed_has_suffix)

lemma listed_prelims_header:
  assumes "prelims e \<noteq> []"
  shows
    "(\<forall>s d p. prelimsTime e = Some s \<and> newDate (date e) = Some d \<and> newDate s = Some p \<and> p < d \<longrightarrow>
        (\<exists>post. description (formatEventForCalendar env ts e cal) =
           (if fightCard e \<noteq> [] then join (lit ''\<newline>'') (fightCard e) @ lit ''\<newline>'' else [])
           @ (if mainCard e \<noteq> []
              then lit ''Main Card\<newline>--------------------\<newline>''
                     @ join (lit ''\<newline>'') (mainCard e) @ lit ''\<newline>''
              else [])
           @ lit ''\<newline>Prelims''
           @ lit '' ('' @ numberToString env (of_int (d - p) / 3600000) @ lit '' hrs before Main)''
           @ lit ''\<newline>--------------------\<newline>''
           @ join (lit ''\<newline>'') (prelims e) @ lit ''\<newline>'' @ post))
     \<and> (prelimsTime e = None
          \<or> (\<exists>s. prelimsTime e = Some s
                \<and> (newDate s = None \<or> newDate (date e) = None
                    \<or> (\<exists>d p. newDate (date e) = Some d \<and> newDate s = Some p \<and> d \<le> p))) \<longrightarrow>
        (\<exists>post. description (formatEventForCalendar env ts e cal) =
           (if fightCard e \<noteq> [] then join (lit ''\<newline>'') (fightCard e) @ lit ''\<newline>'' else [])
           @ (if mainCard e \<noteq> []
              then lit ''Main Card\<newline>--------------------\<newline>''
                     @ join (lit ''\<newline>'') (mainCard e) @ lit ''\<newline>''
              else [])
           @ lit ''\<newline>Prelims''
           @ lit ''\<newline>--------------------\<newline>''
           @ join (lit ''\<newline>'') (prelims e) @ lit ''\<newline>'' @ post))"
proof (intro conjI allI impI)
  fix s d p
  assume h: "prelimsTime e = Some s \<and> newDate (date e) = Some d \<and> newDate s = Some p \<and> p < d"
  then have "s \<noteq> []" using newDate_empty by auto
  with h have t: "truthy (prelimsTime e)" by (simp add: truthy_def)
  from h have pos: "positive (hoursBetween (newDate (date e)) (newDate s))"
    and q: "hoursBetween (newDate (date e)) (newDate s) = Some (of_int (d - p) / 3600000)"
    by (simp_all add: positive_def hoursBetween_def)
  from h have s: "prelimsTime e = Some s" by simp
  show "\<exists>post. description (formatEventForCalendar env ts e cal) =
           (if fightCard e \<noteq> [] then join (lit ''\<newline>'') (fightCard e) @ lit ''\<newline>'' else [])
           @ (if mainCard e \<noteq> []
              then lit ''Main Card\<newline>--------------------\<newline>''
                     @ join (lit ''\<newline>'') (mainCard e) @ lit ''\<newline>''
              else [])
           @ lit ''\<newline>Prelims''
           @ lit '' ('' @ numberToString env (of_int (d - p) / 3600000) @ lit '' hrs before Main)''
           @ lit ''\<newline>--------------------\<newline>''
           @ join (lit ''\<newline>'') (prelims e) @ lit ''\<newline>'' @ post"
    using assms t pos q by (simp add: formatEventForCalendar_def Let_def s)
next
  assume h: "prelimsTime e = None
          \<or> (\<exists>s. prelimsTime e = Some s
                \<and> (newDate s = None \<or> newDate (date e) = None
                    \<or> (\<exists>d p. newDate (date e) = Some d \<and> newDate s = Some p \<and> d \<le> p)))"
  have no: "\<not> (truthy (prelimsTime e)
      \<and> positive (hoursBetween (newDate (date e))
                     (newDate (case prelimsTime e of Some s \<Rightarrow> s | None \<Rightarrow> []))))"
    using h by (auto simp: truthy_def positive_def hoursBetween_def split: option.splits)
  show "\<exists>post. description (formatEventForCalendar env ts e cal) =
           (if fightCard e \<noteq> [] then join (lit ''\<newline>'') (fightCard e) @ lit ''\<newline>'' else [])
           @ (if mainCard e \<noteq> []
              then lit ''Main Card\<newline>--------------------\<newline>''
                     @ join (lit ''\<newline>'') (mainCard e) @ lit ''\<newline>''
              else [])
           @ lit ''\<newline>Prelims''
           @ lit ''\<newline>--------------------\<newline>''
           @ join (lit ''\<newline>'') (prelims e) @ lit ''\<newline>'' @ post"
    using assms no by (auto simp: formatEventForCalendar_def Let_def)
qed


lemma unlisted_prelims_no_header:
  assumes "prelims e = []"
  shows "(\<exists>post. description (formatEventForCalendar env ts e cal) =
           (if fightCard e \<noteq> [] then join (lit ''\<newline>'') (fightCard e) @ lit ''\<newline>'' else [])
           @ (if mainCard e \<noteq> []
              then lit ''Main Card\<newline>--------------------\<newline>''
                     @ join (lit ''\<newline>'') (mainCard e) @ lit ''\<newline>''
              else [])
           @ (if earlyPrelims e \<noteq> [] then lit ''\<newline>Early Prelims''
              else lit ''\<newline>'' @ href (url e) @ lit ''\<newline>'')
           @ post)
     \<and> (\<forall>x. description (formatEventForCalendar env ts (e\<lparr>prelimsTime := x\<rparr>) cal)
              = description (formatEventForCalendar env ts e cal))"
  using assms by (simp add: formatEventForCalendar_def Let_def)

text \<open>
  C2, amended. For an event that lists prelims, the description is the text of the
  fight card and main card sections followed by the Prelims header. When the time of
  the prelims is present and both it and the date of the event are read as valid Dates
  with the prelims earlier than the date, the header is \<open>Prelims\<close>, an opening
  bracket, the number of hours between the two, and \<open>hrs before Main)\<close>. When the
  time of the prelims is absent or is not read as a valid Date, when the date of the
  event is not, or when the prelims do not start before the date, the header is the
  word \<open>Prelims\<close> alone, directly followed by the separator line. For an event that
  lists no prelims there is no Prelims header: the fight card and main card sections
  are directly followed by the Early Prelims header or, when no early prelims are
  listed either, by the line of the url; and the description is the same whatever the
  time of the prelims is.
\<close>

theorem prelims_header_suffix:
  "(prelims e \<noteq> [] \<longrightarrow>
     (\<forall>s d p. prelimsTime e = Some s \<and> newDate (date e) = Some d \<and> newDate s = Some p \<and> p < d \<longrightarrow>
        (\<exists>post. description (formatEventForCalendar env ts e cal) =
           (if fightCard e \<noteq> [] then join (lit ''\<newline>'') (fightCard e) @ lit ''\<newline>'' else [])
           @ (if mainCard e \<noteq> []
              then lit ''Main Card\<newline>--------------------\<newline>''
                     @ join (lit ''\<newline>'') (mainCard e) @ lit ''\<newline>''
              else [])
           @ lit ''\<newline>Prelims''
           @ lit '' ('' @ numberToString env (of_int (d - p) / 3600000) @ lit '' hrs before Main)''
           @ lit ''\<newline>--------------------\<newline>''
           @ join (lit ''\<newline>'') (prelims e) @ lit ''\<newline>'' @ post))
     \<and> (prelimsTime e = None
          \<or> (\<exists>s. prelimsTime e = Some s
                \<and> (newDate s = None \<or> newDate (date e) = None
                    \<or> (\<exists>d p. newDate (date e) = Some d \<and> newDate s = Some p \<and> d \<le> p))) \<longrightarrow>
        (\<exists>post. description (formatEventForCalendar env ts e cal) =
           (if fightCard e \<noteq> [] then join (lit ''\<newline>'') (fightCard e) @ lit ''\<newline>'' else [])
           @ (if mainCard e \<noteq> []
              then lit ''Main Card\<newline>--------------------\<newline>''
                     @ join (lit ''\<newline>'') (mainCard e) @ lit ''\<newline>''
              else [])
           @ lit ''\<newline>Prelims''
           @ lit ''\<newline>--------------------\<newline>''
           @ join (lit ''\<newline>'') (prelims e) @ lit ''\<newline>'' @ post)))
   \<and> (prelims e = [] \<longrightarrow>
        (\<exists>post. description (formatEventForCalendar env ts e cal) =
           (if fightCard e \<noteq> [] then join (lit ''\<newline>'') (fightCard e) @ lit ''\<newline>'' else [])
           @ (if mainCard e \<noteq> []
              then lit ''Main Card\<newline>--------------------\<newline>''
                     @ join (lit ''\<newline>'') (mainCard e) @ lit ''\<newline>''
              else [])
           @ (if earlyPrelims e \<noteq> [] then lit ''\<newline>Early Prelims''
              else lit ''\<newline>'' @ href (url e) @ lit ''\<newline>'')
           @ post)
        \<and> (\<forall>x. description (formatEventForCalendar env ts (e\<lparr>prelimsTime := x\<rparr>) cal)
                 = description (formatEventForCalendar env ts e cal)))"
proof (intro conjI impI)
  assume a: "prelims e \<noteq> []"
  show "\<forall>s d p. prelimsTime e = Some s \<and> newDate (date e) = Some d \<and> newDate s = Some p \<and> p < d \<longrightarrow>
        (\<exists>post. description (formatEventForCalendar env ts e cal) =
           (if fightCard e \<noteq> [] then join (lit ''\<newline>'') (fightCard e) @ lit ''\<newline>'' else [])
           @ (if mainCard e \<noteq> []
              then lit ''Main Card\<newline>--------------------\<newline>''
                     @ join (lit ''\<newline>'') (mainCard e) @ lit ''\<newline>''
              else [])
           @ lit ''\<newline>Prelims''
           @ lit '' ('' @ numberToString env (of_int (d - p) / 3600000) @ lit '' hrs before Main)''
           @ lit ''\<newline>--------------------\<newline>''
           @ join (lit ''\<newline>'') (prelims e) @ lit ''\<newline>'' @ post)"
    using listed_prelims_header [OF a, of env ts cal] by (rule conjunct1)
next
  assume a: "prelims e \<noteq> []"
    and h: "prelimsTime e = None
          \<or> (\<exists>s. prelimsTime e = Some s
                \<and> (newDate s = None \<or> newDate (date e) = None
                    \<or> (\<exists>d p. newDate (date e) = Some d \<and> newDate s = Some p \<and> d \<le> p)))"
  from listed_prelims_header [OF a, of env ts cal] h
  show "\<exists>post. description (formatEventForCalendar env ts e cal) =
           (if fightCard e \<noteq> [] then join (lit ''\<newline>'') (fightCard e) @ lit ''\<newline>'' else [])
           @ (if mainCard e \<noteq> []
              then lit ''Main Card\<newline>--------------------\<newline>''
                     @ join (lit ''\<newline>'') (mainCard e) @ lit ''\<newline>''
              else [])
           @ lit ''\<newline>Prelims''
           @ lit ''\<newline>--------------------\<newline>''
           @ join (lit ''\<newline>'') (prelims e) @ lit ''\<newline>'' @ post"
    by (elim conjE) (erule mp)
next
  assume a: "prelims e = []"
  show "\<exists>post. description (formatEventForCalendar env ts e cal) =
           (if fightCard e \<noteq> [] then join (lit ''\<newline>'') (fightCard e) @ lit ''\<newline>'' else [])
           @ (if mainCard e \<noteq> []
              then lit ''Main Card\<newline>--------------------\<newline>''
                     @ join (lit ''\<newline>'') (mainCard e) @ lit ''\<newline>''
              else [])
           @ (if earlyPrelims e \<noteq> [] then lit ''\<newline>Early Prelims''
              else lit ''\<newline>'' @ href (url e) @ lit ''\<newline>'')
           @ post"
    using unlisted_prelims_no_header [OF a, of env ts cal] by (rule conjunct1)
next
  assume a: "prelims e = []"
  show "\<forall>x. description (formatEventForCalendar env ts (e\<lparr>prelimsTime := x\<rparr>) cal)
                 = description (formatEventForCalendar env ts e cal)"
    using unlisted_prelims_no_header [OF a, of env ts cal] by (rule conjunct2)
qed

theorem prelims_header_suffix_witness:
  "prelims ufc300 \<noteq> []
   \<and> prelimsTime ufc300 = Some (lit ''1713052800'')
   \<and> newDate (date ufc300) = Some 1713060000000
   \<and> newDate (lit ''1713052800'') = Some 1713052800000
   \<and> (\<exists>post. description (formatEventForCalendar utc_env stampA ufc300 (lit ''UFC'')) =
         lit ''A vs B'' @ lit ''\<newline>''
         @ lit ''Main Card\<newline>--------------------\<newline>''
         @ lit ''A vs B'' @ lit ''\<newline>'' @ lit ''C vs D'' @ lit ''\<newline>''
         @ lit ''\<newline>Prelims'' @ lit '' ('' @ lit ''2'' @ lit '' hrs before Main)''
         @ lit ''\<newline>--------------------\<newline>'' @ lit ''E vs F'' @ lit ''\<newline>'' @ post)
   \<and> prelims untimedPrelims \<noteq> []
   \<and> prelimsTime untimedPrelims = None
   \<and> (\<exists>post. description (formatEventForCalendar utc_env stampA untimedPrelims (lit ''UFC'')) =
         lit ''A vs B'' @ lit ''\<newline>''
         @ lit ''Main Card\<newline>--------------------\<newline>''
         @ lit ''A vs B'' @ lit ''\<newline>'' @ lit ''C vs D'' @ lit ''\<newline>''
         @ lit ''\<newline>Prelims''
         @ lit ''\<newline>--------------------\<newline>'' @ lit ''E vs F'' @ lit ''\<newline>'' @ post)
   \<and> prelims cardOnly = []
   \<and> (\<exists>post. description (formatEventForCalendar utc_env stampA cardOnly (lit ''UFC'')) =
         lit ''A vs B'' @ lit ''\<newline>''
         @ lit ''Main Card\<newline>--------------------\<newline>''
         @ lit ''A vs B'' @ lit ''\<newline>'' @ lit ''C vs D'' @ lit ''\<newline>''
         @ lit ''\<newline>'' @ lit ''https://example.com/ufc-300'' @ lit ''\<newline>'' @ post)
   \<and> description (formatEventForCalendar utc_env stampA (cardOnly\<lparr>prelimsTime := None\<rparr>) (lit ''UFC''))
       = description (formatEventForCalendar utc_env stampA cardOnly (lit ''UFC''))"
proof -
  have a: "prelims ufc300 \<noteq> []" and b: "prelims untimedPrelims \<noteq> []"
    and c: "prelims cardOnly = []"
    by (simp_all add: ufc300_fields untimedPrelims_fields cardOnly_fields)
  have n: "numberToString utc_env = decimalText"
    by (simp add: utc_env_def)
  have t: "prelimsTime ufc300 = Some (lit ''1713052800'')
      \<and> newDate (date ufc300) = Some 1713060000000
      \<and> newDate (lit ''1713052800'') = Some 1713052800000
      \<and> (1713052800000::int) < 1713060000000"
    by (simp add: ufc300_fields newDate_main newDate_prelims)
  from prelims_header_suffix [where e = ufc300 and env = utc_env and ts = stampA and cal = "lit ''UFC''"]
       a t
  have "\<exists>post. description (formatEventForCalendar utc_env stampA ufc300 (lit ''UFC'')) =
           (if fightCard ufc300 \<noteq> []
            then join (lit ''\<newline>'') (fightCard ufc300) @ lit ''\<newline>'' else [])
           @ (if mainCard ufc300 \<noteq> []
              then lit ''Main Card\<newline>--------------------\<newline>''
                     @ join (lit ''\<newline>'') (mainCard ufc300) @ lit ''\<newline>''
              else [])
           @ lit ''\<newline>Prelims''
           @ lit '' ('' @ numberToString utc_env (of_int (1713060000000 - 1713052800000) / 3600000)
           @ lit '' hrs before Main)''
           @ lit ''\<newline>--------------------\<newline>''
           @ join (lit ''\<newline>'') (prelims ufc300) @ lit ''\<newline>'' @ post"
    by blast
  then have timed: "\<exists>post. description (formatEventForCalendar utc_env stampA ufc300 (lit ''UFC'')) =
         lit ''A vs B'' @ lit ''\<newline>''
         @ lit ''Main Card\<newline>--------------------\<newline>''
         @ lit ''A vs B'' @ lit ''\<newline>'' @ lit ''C vs D'' @ lit ''\<newline>''
         @ lit ''\<newline>Prelims'' @ lit '' ('' @ lit ''2'' @ lit '' hrs before Main)''
         @ lit ''\<newline>--------------------\<newline>'' @ lit ''E vs F'' @ lit ''\<newline>'' @ post"
    by (simp add: ufc300_fields n hours_prelims decimalText_2)
  have u: "prelimsTime untimedPrelims = None"
    by (simp add: untimedPrelims_fields)
  from prelims_header_suffix
         [where e = untimedPrelims and env = utc_env and ts = stampA and cal = "lit ''UFC''"] b u
  have "\<exists>post. description (formatEventForCalendar utc_env stampA untimedPrelims (lit ''UFC'')) =
           (if fightCard untimedPrelims \<noteq> []
            then join (lit ''\<newline>'') (fightCard untimedPrelims) @ lit ''\<newline>'' else [])
           @ (if mainCard untimedPrelims \<noteq> []
              then lit ''Main Card\<newline>--------------------\<newline>''
                     @ join (lit ''\<newline>'') (mainCard untimedPrelims) @ lit ''\<newline>''
              else [])
           @ lit ''\<newline>Prelims''
           @ lit ''\<newline>--------------------\<newline>''
           @ join (lit ''\<newline>'') (prelims untimedPrelims) @ lit ''\<newline>'' @ post"
    by blast
  then have untimed:
    "\<exists>post. description (formatEventForCalendar utc_env stampA untimedPrelims (lit ''UFC'')) =
         lit ''A vs B'' @ lit ''\<newline>''
         @ lit ''Main Card\<newline>--------------------\<newline>''
         @ lit ''A vs B'' @ lit ''\<newline>'' @ lit ''C vs D'' @ lit ''\<newline>''
         @ lit ''\<newline>Prelims''
         @ lit ''\<newline>--------------------\<newline>'' @ lit ''E vs F'' @ lit ''\<newline>'' @ post"
    by (simp add: untimedPrelims_fields)
  from prelims_header_suffix
         [where e = cardOnly and env = utc_env and ts = stampA and cal = "lit ''UFC''"] c
  have d: "(\<exists>post. description (formatEventForCalendar utc_env stampA cardOnly (lit ''UFC'')) =
           (if fightCard cardOnly \<noteq> []
            then join (lit ''\<newline>'') (fightCard cardOnly) @ lit ''\<newline>'' else [])
           @ (if mainCard cardOnly \<noteq> []
              then lit ''Main Card\<newline>--------------------\<newline>''
                     @ join (lit ''\<newline>'') (mainCard cardOnly) @ lit ''\<newline>''
              else [])
           @ (if earlyPrelims cardOnly \<noteq> [] then lit ''\<newline>Early Prelims''
              else lit ''\<newline>'' @ href (url cardOnly) @ lit ''\<newline>'')
           @ post)
        \<and> (\<forall>x. description (formatEventForCalendar utc_env stampA (cardOnly\<lparr>prelimsTime := x\<rparr>) (lit ''UFC''))
                 = description (formatEventForCalendar utc_env stampA cardOnly (lit ''UFC'')))"
    by blast
  then have unlisted:
    "\<exists>post. description (formatEventForCalendar utc_env stampA cardOnly (lit ''UFC'')) =
         lit ''A vs B'' @ lit ''\<newline>''
         @ lit ''Main Card\<newline>--------------------\<newline>''
         @ lit ''A vs B'' @ lit ''\<newline>'' @ lit ''C vs D'' @ lit ''\<newline>''
         @ lit ''\<newline>'' @ lit ''https://example.com/ufc-300'' @ lit ''\<newline>'' @ post"
    by (simp add: cardOnly_fields)
  from d have same:
    "description (formatEventForCalendar utc_env stampA (cardOnly\<lparr>prelimsTime := None\<rparr>) (lit ''UFC''))
       = description (formatEventForCalendar utc_env stampA cardOnly (lit ''UFC''))"
    by blast
  from a b c t u timed untimed unlisted same show ?thesis
    by (intro conjI) simp_all
qed

section \<open>Failures of the run\<close>

text \<open>
  C8. When the acquisition returns no list or an empty list, the \<open>try\<close> block throws
  before it calls the serializer or writes a file: the run ends with exit code 1, the
  files are as they were, and the trace has no new entry, so neither \<open>UFC.ics\<close> nor
  \<open>UFC-PPV.ics\<close> is written.
\<close>

theorem no_events_is_fatal:
  "acquired = None \<or> acquired = Some [] \<Longrightarrow>
   createICS_try env clock (Inr acquired) createEvents proc = (Some NoEventsRetrieved, proc)
   \<and> exitCode (createICS env clock (Inr acquired) createEvents proc) = Some 1
   \<and> files (createICS env clock (Inr acquired) createEvents proc) = files proc
   \<and> trace (createICS env clock (Inr acquired) createEvents proc) = trace proc"
  by (auto simp: createICS_def createICS_try_def)

theorem no_events_is_fatal_witness:
  "createICS utc_env (\<lambda>k. stampA) (Inr None) (\<lambda>entries. Inr (lit ''BEGIN:VCALENDAR'')) freshProcess
     = \<lparr>files = Map.empty, exitCode = Some 1, trace = []\<rparr>
   \<and> createICS utc_env (\<lambda>k. stampA) (Inr (Some [])) (\<lambda>entries. Inr (lit ''BEGIN:VCALENDAR'')) freshProcess
     = \<lparr>files = Map.empty, exitCode = Some 1, trace = []\<rparr>"
proof -
  have a: "(None :: UFCEvent list option) = None \<or> (None :: UFCEvent list option) = Some []"
    and b: "Some ([] :: UFCEvent list) = None \<or> Some ([] :: UFCEvent list) = Some []"
    by simp_all
  from no_events_is_fatal [OF a, of utc_env "\<lambda>k. stampA" "\<lambda>entries. Inr (lit ''BEGIN:VCALENDAR'')" freshProcess]
       no_events_is_fatal [OF b, of utc_env "\<lambda>k. stampA" "\<lambda>entries. Inr (lit ''BEGIN:VCALENDAR'')" freshProcess]
  show ?thesis
    by (simp add: freshProcess_def process.equality)
qed

text \<open>
  C9. When the serializer reports an error for the entries of the full feed, the run
  stops there: the only new entry of the trace is that one call of the serializer, so
  the pay-per-view feed is never serialized and no file is written, the files are as
  they were, and the exit code is 1.
\<close>

theorem full_feed_error_aborts_run:
  assumes "events \<noteq> []"
    and "createEvents (mapFormat env clock 0 (lit ''UFC'') events) = Inl err"
  shows "createICS_try env clock (Inr (Some events)) createEvents proc
           = (Some (SerializerError err),
              proc\<lparr>trace := trace proc @ [CreateEvents (mapFormat env clock 0 (lit ''UFC'') events)]\<rparr>)
     \<and> exitCode (createICS env clock (Inr (Some events)) createEvents proc) = Some 1
     \<and> files (createICS env clock (Inr (Some events)) createEvents proc) = files proc
     \<and> trace (createICS env clock (Inr (Some events)) createEvents proc)
         = trace proc @ [CreateEvents (mapFormat env clock 0 (lit ''UFC'') events)]"
  using assms by (simp add: createICS_def createICS_try_def callCreateEvents_def Let_def)

theorem full_feed_error_aborts_run_witness:
  "[ufc300, fightNight] \<noteq> []
   \<and> exitCode (createICS utc_env (\<lambda>k. stampA) (Inr (Some [ufc300, fightNight]))
        (\<lambda>entries. Inl (lit ''invalid'')) freshProcess) = Some 1
   \<and> files (createICS utc_env (\<lambda>k. stampA) (Inr (Some [ufc300, fightNight]))
        (\<lambda>entries. Inl (lit ''invalid'')) freshProcess) = Map.empty
   \<and> trace (createICS utc_env (\<lambda>k. stampA) (Inr (Some [ufc300, fightNight]))
        (\<lambda>entries. Inl (lit ''invalid'')) freshProcess)
       = [CreateEvents (mapFormat utc_env (\<lambda>k. stampA) 0 (lit ''UFC'') [ufc300, fightNight])]"
proof -
  have a: "[ufc300, fightNight] \<noteq> []" by simp
  have b: "(\<lambda>entries. Inl (lit ''invalid'') :: jsstring + jsstring)
             (mapFormat utc_env (\<lambda>k. stampA) 0 (lit ''UFC'') [ufc300, fightNight])
           = Inl (lit ''invalid'')"
    by simp
  from full_feed_error_aborts_run [OF a b, where proc = freshProcess] show ?thesis
    by (simp add: freshProcess_def)
qed

end
